theory Spec2Isabelle
  imports Main "HOL-Library.Word"
begin

section \<open>JavaLab backend (src/backend/server.js): strings\<close>

text \<open>
  A JavaScript string is a sequence of UTF-16 code units; \<open>length\<close> counts code units,
  as \<open>code.length\<close> does. ASCII literals of the source are written with \<open>js\<close>;
  the few non-ASCII characters of the source are given by their code units.
\<close>

type_synonym jschar = "16 word"
type_synonym jsstring = "jschar list"

definition js :: "string \<Rightarrow> jsstring" where
  "js s = map of_char s"

text \<open>\<open>a || b\<close> on strings: the empty string is falsy.\<close>

definition or_str :: "jsstring \<Rightarrow> jsstring \<Rightarrow> jsstring" where
  "or_str a b = (if a \<noteq> [] then a else b)"

text \<open>\<open>String.prototype.includes\<close>: a left-to-right search for the pattern.\<close>

fun starts_with :: "'a list \<Rightarrow> 'a list \<Rightarrow> bool" where
  "starts_with s [] = True"
| "starts_with [] (p # ps) = False"
| "starts_with (c # cs) (p # ps) = (c = p \<and> starts_with cs ps)"

fun str_includes :: "'a list \<Rightarrow> 'a list \<Rightarrow> bool" where
  "str_includes [] p = starts_with [] p"
| "str_includes (c # cs) p = (starts_with (c # cs) p \<or> str_includes cs p)"

section \<open>ensureMainClass (server.js, lines 199-213)\<close>

definition wrapper_head :: jsstring where
  "wrapper_head = js ''public class Main {\<newline>    public static void main(String[] args) {\<newline>        // User code starts here\<newline>''"

definition wrapper_tail :: jsstring where
  "wrapper_tail = js ''\<newline>        // User code ends here\<newline>    }\<newline>}''"

definition ensureMainClass :: "jsstring \<Rightarrow> jsstring" where
  "ensureMainClass code =
     (if str_includes code (js ''public class Main'') \<or> str_includes code (js ''class Main'')
      then code
      else wrapper_head @ code @ wrapper_tail)"

section \<open>The regular expressions of the source\<close>

text \<open>
  The source uses regular expressions built from literal characters, the class \<open>\s\<close>,
  the negated class \<open>[^:\s]\<close>, and the quantifiers \<open>*\<close> and \<open>+\<close>; two of them
  carry the flag \<open>i\<close>. A pattern is a list of atoms, each with its quantifier.
\<close>

datatype atom = Chr jschar | ChrI jschar | Space | NotColonSpace

datatype quant = Once | Star | Plus

type_synonym regex = "(atom \<times> quant) list"

text \<open>The class \<open>\s\<close> of ECMAScript: white space and line terminators.\<close>

definition is_space :: "jschar \<Rightarrow> bool" where
  "is_space c \<longleftrightarrow>
     c = 0x09 \<or> c = 0x0A \<or> c = 0x0B \<or> c = 0x0C \<or> c = 0x0D \<or> c = 0x20 \<or> c = 0xA0 \<or>
     c = 0x1680 \<or> (0x2000 \<le> c \<and> c \<le> 0x200A) \<or> c = 0x2028 \<or> c = 0x2029 \<or>
     c = 0x202F \<or> c = 0x205F \<or> c = 0x3000 \<or> c = 0xFEFF"

text \<open>
  Under the flag \<open>i\<close> (without \<open>u\<close>) two code units match when their canonical
  forms agree; a code unit outside ASCII never canonicalises to an ASCII one, so for the
  ASCII patterns of the source only the two cases of a letter match.
\<close>

definition to_upper_ascii :: "jschar \<Rightarrow> jschar" where
  "to_upper_ascii c = (if 0x61 \<le> c \<and> c \<le> 0x7A then c - 0x20 else c)"

fun atom_matches :: "atom \<Rightarrow> jschar \<Rightarrow> bool" where
  "atom_matches (Chr p) c = (c = p)"
| "atom_matches (ChrI p) c = (to_upper_ascii c = to_upper_ascii p)"
| "atom_matches Space c = is_space c"
| "atom_matches NotColonSpace c = (c \<noteq> 0x3A \<and> \<not> is_space c)"

text \<open>
  \<open>match_here r s\<close> is the length of the match of \<open>r\<close> that starts at the first
  character of \<open>s\<close>, found by the backtracking of the ECMAScript matcher: a quantified
  atom takes as many characters as it can and gives them back one at a time.
\<close>

fun match_here :: "regex \<Rightarrow> jsstring \<Rightarrow> nat option" where
  "match_here [] s = Some 0"
| "match_here ((a, Once) # r) [] = None"
| "match_here ((a, Once) # r) (c # cs) =
     (if atom_matches a c then map_option Suc (match_here r cs) else None)"
| "match_here ((a, Plus) # r) [] = None"
| "match_here ((a, Plus) # r) (c # cs) =
     (if atom_matches a c then map_option Suc (match_here ((a, Star) # r) cs) else None)"
| "match_here ((a, Star) # r) [] = match_here r []"
| "match_here ((a, Star) # r) (c # cs) =
     (if atom_matches a c
      then (case match_here ((a, Star) # r) cs of
              Some n \<Rightarrow> Some (Suc n)
            | None \<Rightarrow> match_here r (c # cs))
      else match_here r (c # cs))"

text \<open>
  \<open>RegExp.prototype.test\<close> on a regular expression object that has just been created
  (\<open>lastIndex = 0\<close>): is there a match at some position.
\<close>

fun regex_test :: "regex \<Rightarrow> jsstring \<Rightarrow> bool" where
  "regex_test r [] = (match_here r [] \<noteq> None)"
| "regex_test r (c # cs) = (match_here r (c # cs) \<noteq> None \<or> regex_test r cs)"

text \<open>
  \<open>String.prototype.replace\<close> with a regular expression with the flag \<open>g\<close> and a
  replacement string without \<open>$\<close>: every match, leftmost first, is replaced, and the
  search goes on after the match.
\<close>

function regex_replace :: "regex \<Rightarrow> jsstring \<Rightarrow> jsstring \<Rightarrow> jsstring" where
  "regex_replace r rep [] = (case match_here r [] of Some n \<Rightarrow> rep | None \<Rightarrow> [])"
| "regex_replace r rep (c # cs) =
     (case match_here r (c # cs) of
        None \<Rightarrow> c # regex_replace r rep cs
      | Some 0 \<Rightarrow> rep @ c # regex_replace r rep cs
      | Some (Suc n) \<Rightarrow> rep @ regex_replace r rep (drop n cs))"
  by pat_completeness auto
termination
  by (relation "measure (\<lambda>(r, rep, s). length s)") auto

definition lit :: "string \<Rightarrow> regex" where
  "lit s = map (\<lambda>c. (Chr (of_char c), Once)) s"

definition lit_i :: "string \<Rightarrow> regex" where
  "lit_i s = map (\<lambda>c. (ChrI (of_char c), Once)) s"

section \<open>containsMaliciousCode (server.js, lines 216-242)\<close>

definition dangerousPatterns :: "regex list" where
  "dangerousPatterns =
     [lit ''Runtime.getRuntime()'',
      lit ''ProcessBuilder'',
      lit ''exec('',
      lit ''System.exit('',
      lit ''Thread.sleep('',
      lit ''FileWriter'',
      lit ''FileOutputStream'',
      lit ''Socket('',
      lit ''ServerSocket('',
      lit ''Class.forName'',
      lit ''javax.script'',
      lit ''native'' @ [(Space, Once)],
      lit ''synchronized'' @ [(Space, Star)] @ lit ''('',
      lit ''wait('',
      lit ''notify('']"

fun any_pattern_matches :: "regex list \<Rightarrow> jsstring \<Rightarrow> bool" where
  "any_pattern_matches [] code = False"
| "any_pattern_matches (pattern # rest) code =
     (if regex_test pattern code then True else any_pattern_matches rest code)"

definition containsMaliciousCode :: "jsstring \<Rightarrow> bool" where
  "containsMaliciousCode code = any_pattern_matches dangerousPatterns code"

section \<open>formatCompilationError (server.js, lines 245-268)\<close>

definition format_header :: jsstring where
  "format_header =
     [0x274C] @ js '' Compilation Failed\<newline>'' @ replicate 40 0x2550 @ js ''\<newline>\<newline>''"

definition format_footer :: jsstring where
  "format_footer =
     js ''\<newline>\<newline>'' @ [0xD83D, 0xDCA1] @ js '' Tips:\<newline>'' @
     [0x2022] @ js '' Check for missing semicolons\<newline>'' @
     [0x2022] @ js '' Ensure braces are balanced\<newline>'' @
     [0x2022] @ js '' Verify variable declarations\<newline>'' @
     [0x2022] @ js '' Check method signatures''"

definition path_pattern :: regex where
  "path_pattern = lit ''/tmp/'' @ [(NotColonSpace, Plus)]"

definition formatCompilationError :: "jsstring \<Rightarrow> jsstring" where
  "formatCompilationError error =
     (let e1 = regex_replace path_pattern (js ''Main.java'') error;
          e2 = regex_replace (lit_i ''error:'') ([0x274C] @ js '' Error:'') e1;
          e3 = regex_replace (lit_i ''warning:'') ([0x26A0, 0xFE0F] @ js '' Warning:'') e2;
          e4 = regex_replace (lit ''Main.java:'') (js ''Line '') e3
      in format_header @ e4 @ format_footer)"

section \<open>The scratch directory\<close>

text \<open>
  The file system is a map from absolute paths to nodes. \<open>path.join\<close> is modelled for
  the arguments the source gives it: a normalised directory and a plain name.
\<close>

datatype kind = RegularFile | Directory

record node =
  kind :: kind
  mtimeMs :: int
  content :: jsstring

type_synonym fs = "jsstring \<rightharpoonup> node"

datatype fs_error = ENOENT | EISDIR | EIO jsstring

definition path_join :: "jsstring \<Rightarrow> jsstring \<Rightarrow> jsstring" where
  "path_join dir name = dir @ js ''/'' @ name"

definition existsSync :: "fs \<Rightarrow> jsstring \<Rightarrow> bool" where
  "existsSync fs p \<longleftrightarrow> fs p \<noteq> None"


definition unlinkSync :: "fs \<Rightarrow> jsstring \<Rightarrow> fs_error + fs" where
  "unlinkSync fs p =
     (case fs p of
        None \<Rightarrow> Inl ENOENT
      | Some n \<Rightarrow> if kind n = Directory then Inl EISDIR else Inr (fs(p := None)))"

text \<open>cleanupFile (lines 271-279): an error of the deletion is logged and swallowed.\<close>

definition cleanupFile :: "fs \<Rightarrow> jsstring \<Rightarrow> fs" where
  "cleanupFile fs filePath =
     (if existsSync fs filePath
      then (case unlinkSync fs filePath of Inl e \<Rightarrow> fs | Inr fs' \<Rightarrow> fs')
      else fs)"





section \<open>Values, requests and responses\<close>

text \<open>
  The field \<open>code\<close> of the request body, after the JSON body parser, is any JSON value,
  or \<open>undefined\<close> when the field is missing.
\<close>

datatype js_value =
    JUndefined
  | JNull
  | JBool bool
  | JNumber int
  | JString jsstring
  | JArray "js_value list"
  | JObject "(string \<times> js_value) list"

fun truthy :: "js_value \<Rightarrow> bool" where
  "truthy JUndefined = False"
| "truthy JNull = False"
| "truthy (JBool b) = b"
| "truthy (JNumber n) = (n \<noteq> 0)"
| "truthy (JString s) = (s \<noteq> [])"
| "truthy (JArray xs) = True"
| "truthy (JObject kvs) = True"

fun typeof :: "js_value \<Rightarrow> string" where
  "typeof JUndefined = ''undefined''"
| "typeof JNull = ''object''"
| "typeof (JBool b) = ''boolean''"
| "typeof (JNumber n) = ''number''"
| "typeof (JString s) = ''string''"
| "typeof (JArray xs) = ''object''"
| "typeof (JObject kvs) = ''object''"

text \<open>
  A response is the HTTP status and the object given to \<open>res.json\<close>, as the list of its
  properties in the order the source writes them.
\<close>

record response =
  status :: nat
  body :: "(string \<times> js_value) list"

definition property :: "response \<Rightarrow> string \<Rightarrow> js_value option" where
  "property r k = map_of (body r) k"

definition shape :: "response \<Rightarrow> (string \<times> string) list" where
  "shape r = map (\<lambda>(k, v). (k, typeof v)) (body r)"

definition no_code_response :: response where
  "no_code_response =
     \<lparr>status = 400,
      body = [(''success'', JBool False),
              (''error'', JString (js ''No code provided'')),
              (''output'', JString ([0x274C] @ js '' Error: No Java code to compile''))]\<rparr>"

definition too_long_response :: response where
  "too_long_response =
     \<lparr>status = 400,
      body = [(''success'', JBool False),
              (''error'', JString (js ''Code too long (max 10,000 characters)'')),
              (''output'', JString ([0x274C] @
                 js '' Error: Code exceeds maximum length (10,000 characters)''))]\<rparr>"

definition malicious_response :: response where
  "malicious_response =
     \<lparr>status = 400,
      body = [(''success'', JBool False),
              (''error'', JString (js ''Potentially malicious code detected'')),
              (''output'', JString ([0x274C] @
                 js '' Security Error: Code contains restricted patterns''))]\<rparr>"

definition compile_failed_response :: "jsstring \<Rightarrow> int \<Rightarrow> response" where
  "compile_failed_response error elapsed =
     \<lparr>status = 200,
      body = [(''success'', JBool False),
              (''output'', JString (formatCompilationError error)),
              (''executionTime'', JNumber elapsed)]\<rparr>"

definition timeout_message :: jsstring where
  "timeout_message =
     [0x23F0] @ js '' Error: Program execution timed out (5 seconds)\<newline>\<newline>'' @
     js ''Possible reasons:\<newline>'' @
     [0x2022] @ js '' Infinite loop\<newline>'' @
     [0x2022] @ js '' Waiting for input (Scanner not supported)\<newline>'' @
     [0x2022] @ js '' Too much computation\<newline>\<newline>'' @
     js ''Tip: Use simple loops and avoid infinite loops.''"

definition timed_out_response :: "int \<Rightarrow> response" where
  "timed_out_response elapsed =
     \<lparr>status = 200,
      body = [(''success'', JBool False),
              (''output'', JString timeout_message),
              (''executionTime'', JNumber elapsed)]\<rparr>"

definition success_response :: "jsstring \<Rightarrow> int \<Rightarrow> response" where
  "success_response out elapsed =
     \<lparr>status = 200,
      body = [(''success'', JBool True),
              (''output'', JString out),
              (''executionTime'', JNumber elapsed)]\<rparr>"

definition server_error_response :: "jsstring \<Rightarrow> response" where
  "server_error_response msg =
     \<lparr>status = 500,
      body = [(''success'', JBool False),
              (''error'', JString msg),
              (''output'', JString ([0x274C] @ js '' Server Error: '' @ msg @
                 js ''\<newline>\<newline>Please try again or contact support.''))]\<rparr>"

section \<open>Subprocesses\<close>

text \<open>
  What one call of \<open>child_process.exec\<close> does, as the program sees it: either the call
  throws, or a child process object is returned and the runtime later delivers, in order,
  events emitted on that object and the completion callback \<open>(error, stdout, stderr)\<close>.
  The toolchain may change the file system while it runs.
\<close>

record exec_error =
  message :: jsstring
  killed :: bool
  exit_code :: "int option"

datatype delivery =
    Callback "exec_error option" jsstring jsstring
  | Emit string

type_synonym exec_model = "jsstring \<Rightarrow> fs \<Rightarrow> jsstring + (fs \<times> delivery list)"

datatype 'a promise = Resolved 'a | Rejected jsstring | Pending

text \<open>
  The environment of one request: the clock readings, the random suffix, the temporary
  directory of the operating system, and the behaviour of the disk and of the toolchain.
\<close>

record env =
  os_tmpdir :: jsstring
  clock_start :: int
  clock_name :: int
  clock_end :: int
  random_suffix :: jsstring
  write_fault :: "jsstring option"
  javac :: exec_model
  java :: exec_model

record state =
  files :: fs
  spawned :: "jsstring list"
  kill_calls :: nat

definition tempDir :: "env \<Rightarrow> jsstring" where
  "tempDir env = path_join (os_tmpdir env) (js ''javalab-temp'')"

definition dquote :: jsstring where
  "dquote = [0x22]"

text \<open>Decimal rendering of an integer, as a template literal renders \<open>Date.now()\<close>.\<close>

function digits :: "nat \<Rightarrow> jsstring" where
  "digits n = (if n < 10 then [of_nat (48 + n)] else digits (n div 10) @ [of_nat (48 + n mod 10)])"
  by pat_completeness auto
termination
  by (relation "measure id") auto

definition number_toString :: "int \<Rightarrow> jsstring" where
  "number_toString i = (if i < 0 then js ''-'' @ digits (nat (- i)) else digits (nat i))"

text \<open>
  \<open>fs.writeFileSync\<close>: throws when the disk fails or the path is a directory, otherwise
  the file holds the data; its modification time is the clock reading of the request.
\<close>

definition writeFileSync :: "env \<Rightarrow> fs \<Rightarrow> jsstring \<Rightarrow> jsstring \<Rightarrow> jsstring + fs" where
  "writeFileSync env fs p data =
     (case write_fault env of
        Some msg \<Rightarrow> Inl msg
      | None \<Rightarrow>
          (case fs p of
             Some n \<Rightarrow>
               if kind n = Directory
               then Inl (js ''EISDIR: illegal operation on a directory'')
               else Inr (fs(p \<mapsto> \<lparr>kind = RegularFile, mtimeMs = clock_name env, content = data\<rparr>))
           | None \<Rightarrow>
               Inr (fs(p \<mapsto> \<lparr>kind = RegularFile, mtimeMs = clock_name env, content = data\<rparr>))))"

section \<open>compileJava (server.js, lines 151-169)\<close>

datatype compile_result = CompileFailed jsstring | CompileOk jsstring

fun compile_settle :: "delivery list \<Rightarrow> compile_result promise" where
  "compile_settle [] = Pending"
| "compile_settle (Callback error stdout stderr # ds) =
     (case error of
        Some e \<Rightarrow> Resolved (CompileFailed (or_str (or_str stderr stdout) (message e)))
      | None \<Rightarrow> Resolved (CompileOk stdout))"
| "compile_settle (Emit ev # ds) = compile_settle ds"

definition compileJava :: "env \<Rightarrow> jsstring \<Rightarrow> jsstring \<Rightarrow> state \<Rightarrow> compile_result promise \<times> state" where
  "compileJava env filePath outputDir st =
     (let command = js ''javac -d '' @ outputDir @ js '' '' @ dquote @ filePath @ dquote in
      case javac env command (files st) of
        Inl msg \<Rightarrow> (Rejected msg, st)
      | Inr (fs', ds) \<Rightarrow>
          (compile_settle ds, st\<lparr>files := fs', spawned := spawned st @ [command]\<rparr>))"

section \<open>executeJava (server.js, lines 172-196)\<close>

record run_result =
  "output" :: jsstring
  timedOut :: bool

text \<open>
  The promise is settled by the first call of \<open>resolve\<close>: by the completion callback, or
  by the listener of the event \<open>timeout\<close>, which also calls \<open>childProcess.kill()\<close>.
  The second component counts these calls of \<open>kill\<close>.
\<close>

fun run_settle :: "delivery list \<Rightarrow> run_result promise \<times> nat" where
  "run_settle [] = (Pending, 0)"
| "run_settle (Callback error stdout stderr # ds) =
     (Resolved \<lparr>output = or_str stdout stderr, timedOut = False\<rparr>, 0)"
| "run_settle (Emit ev # ds) =
     (if ev = ''timeout''
      then (Resolved \<lparr>output = [], timedOut = True\<rparr>, 1)
      else run_settle ds)"

definition executeJava :: "env \<Rightarrow> jsstring \<Rightarrow> jsstring \<Rightarrow> state \<Rightarrow> run_result promise \<times> state" where
  "executeJava env className classPath st =
     (let command = js ''cd '' @ dquote @ classPath @ dquote @ js '' && java '' @ className in
      case java env command (files st) of
        Inl msg \<Rightarrow> (Rejected msg, st)
      | Inr (fs', ds) \<Rightarrow>
          (fst (run_settle ds),
           st\<lparr>files := fs', spawned := spawned st @ [command],
              kill_calls := kill_calls st + snd (run_settle ds)\<rparr>))"

text \<open>
  What the runtime delivers for an \<open>exec\<close> with the option \<open>timeout\<close> whose child is
  still running when the time is up: the runtime itself sends the kill signal, the child
  object emits \<open>exit\<close> and \<open>close\<close>, and the completion callback gets an error with
  \<open>killed = true\<close> and the output captured so far. A child process object has no event
  \<open>timeout\<close>.
\<close>

definition exec_timeout_deliveries :: "jsstring \<Rightarrow> jsstring \<Rightarrow> jsstring \<Rightarrow> delivery list" where
  "exec_timeout_deliveries command stdout stderr =
     [Emit ''spawn'', Emit ''exit'', Emit ''close'',
      Callback (Some \<lparr>message = js ''Command failed: '' @ command @ js ''\<newline>'' @ stderr,
                      killed = True, exit_code = None\<rparr>) stdout stderr]"

section \<open>The route POST /compile (server.js, lines 48-146)\<close>

definition make_filename :: "env \<Rightarrow> jsstring" where
  "make_filename env = js ''Main_'' @ number_toString (clock_name env) @ js ''_'' @ random_suffix env"

definition elapsed :: "env \<Rightarrow> int" where
  "elapsed env = clock_end env - clock_start env"

text \<open>
  The body of the \<open>try\<close> block. \<open>Inl msg\<close> is an exception, which the \<open>catch\<close> clause
  receives; \<open>Inr None\<close> is a request whose awaited promise never settles, so that no
  response is sent.
\<close>

definition try_block :: "env \<Rightarrow> jsstring \<Rightarrow> state \<Rightarrow> (jsstring + response option) \<times> state" where
  "try_block env code st =
     (let filename = make_filename env;
          javaFilePath = path_join (tempDir env) (filename @ js ''.java'');
          classFilePath = path_join (tempDir env) (filename @ js ''.class'');
          processedCode = ensureMainClass code
      in case writeFileSync env (files st) javaFilePath processedCode of
           Inl msg \<Rightarrow> (Inl msg, st)
         | Inr fs1 \<Rightarrow>
             (case compileJava env javaFilePath (tempDir env) (st\<lparr>files := fs1\<rparr>) of
                (Rejected msg, st2) \<Rightarrow> (Inl msg, st2)
              | (Pending, st2) \<Rightarrow> (Inr None, st2)
              | (Resolved (CompileFailed error), st2) \<Rightarrow>
                  (Inr (Some (compile_failed_response error (elapsed env))),
                   st2\<lparr>files := cleanupFile (files st2) javaFilePath\<rparr>)
              | (Resolved (CompileOk out), st2) \<Rightarrow>
                  (case executeJava env filename (tempDir env) st2 of
                     (Rejected msg, st3) \<Rightarrow> (Inl msg, st3)
                   | (Pending, st3) \<Rightarrow> (Inr None, st3)
                   | (Resolved executionResult, st3) \<Rightarrow>
                       (let st4 = st3\<lparr>files :=
                                   cleanupFile (cleanupFile (files st3) javaFilePath) classFilePath\<rparr>
                        in if timedOut executionResult
                           then (Inr (Some (timed_out_response (elapsed env))), st4)
                           else (Inr (Some (success_response (output executionResult) (elapsed env))),
                                 st4)))))"

definition post_compile :: "env \<Rightarrow> js_value \<Rightarrow> state \<Rightarrow> response option \<times> state" where
  "post_compile env code st =
     (if \<not> truthy code \<or> typeof code \<noteq> ''string'' then (Some no_code_response, st)
      else case code of
        JString s \<Rightarrow>
          if length s > 10000 then (Some too_long_response, st)
          else if containsMaliciousCode s then (Some malicious_response, st)
          else (case try_block env s st of
                  (Inl msg, st') \<Rightarrow> (Some (server_error_response msg), st')
                | (Inr r, st') \<Rightarrow> (r, st'))
      | _ \<Rightarrow> (Some no_code_response, st))"

section \<open>Environments and inputs for concrete runs\<close>

text \<open>
  A request at time 1700000000000 with the random suffix \<open>k3j9x2m1q\<close>, on a host whose
  temporary directory is \<open>/tmp\<close>, with a toolchain whose two commands end normally.
\<close>

definition completing_toolchain :: "jsstring \<Rightarrow> jsstring \<Rightarrow> exec_model" where
  "completing_toolchain stdout stderr command fs = Inr (fs, [Callback None stdout stderr])"

definition sample_env :: env where
  "sample_env =
     \<lparr>os_tmpdir = js ''/tmp'',
      clock_start = 1700000000000,
      clock_name = 1700000000001,
      clock_end = 1700000000950,
      random_suffix = js ''k3j9x2m1q'',
      write_fault = None,
      javac = completing_toolchain [] [],
      java = completing_toolchain (js ''42\<newline>'') []\<rparr>"

definition empty_state :: state where
  "empty_state = \<lparr>files = Map.empty, spawned = [], kill_calls = 0\<rparr>"

text \<open>A program that ends with an uncaught exception: exit status 1, text on stderr.\<close>

definition crashing_run :: exec_model where
  "crashing_run command fs =
     Inr (fs, [Emit ''spawn'', Emit ''exit'', Emit ''close'',
               Callback (Some \<lparr>message = js ''Command failed: '' @ command, killed = False,
                               exit_code = Some 1\<rparr>)
                 [] (js ''Exception in thread main java.lang.ArithmeticException: / by zero'')])"

definition crash_env :: env where
  "crash_env = sample_env\<lparr>java := crashing_run\<rparr>"

text \<open>A host on which the second \<open>exec\<close> throws: the process cannot be spawned.\<close>

definition failing_spawn :: exec_model where
  "failing_spawn command fs = Inl (js ''spawn ENOMEM'')"

definition spawn_fault_env :: env where
  "spawn_fault_env = sample_env\<lparr>java := failing_spawn\<rparr>"

text \<open>
  A source text with a class \<open>Main\<close> that is not public: it is written unchanged, and a
  compiler accepts it in a file of any name.
\<close>

definition plain_main_code :: jsstring where
  "plain_main_code = js ''class Main { public static void main(String[] a) { } }''"

text \<open>
  A program that is still running after 5000 ms: the runtime delivers what
  \<open>exec_timeout_deliveries\<close> describes, and the response is built 5400 ms after the
  request came in.
\<close>

definition overrunning_run :: exec_model where
  "overrunning_run command fs = Inr (fs, exec_timeout_deliveries command [] [])"

definition overrun_env :: env where
  "overrun_env = sample_env\<lparr>clock_end := 1700000005400, java := overrunning_run\<rparr>"

definition loop_code :: jsstring where
  "loop_code = js ''class Main_1700000000001_k3j9x2m1q { public static void main(String[] a) { while (true) { } } }''"

text \<open>
  A compiler run that fails: exit status 1 and the given text on stderr. The first text is
  what javac prints for a public class \<open>Main\<close> in a file that is not \<open>Main.java\<close>, the
  second what it prints for a syntax error in a file under \<open>/var/scratch\<close>.
\<close>

definition rejecting_javac :: "jsstring \<Rightarrow> exec_model" where
  "rejecting_javac stderr command fs =
     Inr (fs, [Emit ''spawn'', Emit ''exit'', Emit ''close'',
               Callback (Some \<lparr>message = js ''Command failed: '' @ command @ js ''\<newline>'' @ stderr,
                               killed = False, exit_code = Some 1\<rparr>) [] stderr])"

definition hi_code :: jsstring where
  "hi_code = js ''System.out.println('' @ dquote @ js ''hi'' @ dquote @ js '');''"

definition javac_name_error :: jsstring where
  "javac_name_error =
     js ''/tmp/javalab-temp/Main_1700000000001_k3j9x2m1q.java:1: error: class Main is public, should be declared in a file named Main.java\<newline>public class Main {\<newline>       ^\<newline>1 error\<newline>''"

definition strict_env :: env where
  "strict_env = sample_env\<lparr>javac := rejecting_javac javac_name_error\<rparr>"

definition javac_syntax_error :: jsstring where
  "javac_syntax_error =
     js ''/var/scratch/javalab-temp/Main_1700000000001_k3j9x2m1q.java:4: error: not a statement\<newline>int x\<newline>    ^\<newline>1 error\<newline>''"

definition relocated_env :: env where
  "relocated_env =
     sample_env\<lparr>os_tmpdir := js ''/var/scratch'', javac := rejecting_javac javac_syntax_error\<rparr>"






text \<open>The two sets of properties a response has, each property with its \<open>typeof\<close>.\<close>

definition ok_shape :: "(string \<times> string) list" where
  "ok_shape = [(''success'', ''boolean''), (''output'', ''string''), (''executionTime'', ''number'')]"

definition error_shape :: "(string \<times> string) list" where
  "error_shape = [(''success'', ''boolean''), (''error'', ''string''), (''output'', ''string'')]"

section \<open>Facts about the string search\<close>

lemma starts_with_iff: "starts_with s p \<longleftrightarrow> (\<exists>v. s = p @ v)"
  by (induction s p rule: starts_with.induct) auto

lemma str_includes_iff: "str_includes s p \<longleftrightarrow> (\<exists>u v. s = u @ p @ v)"
proof (induction s)
  case Nil
  show ?case by (cases p) auto
next
  case (Cons c cs)
  show ?case
  proof
    assume "str_includes (c # cs) p"
    then consider "starts_with (c # cs) p" | "str_includes cs p" by auto
    then show "\<exists>u v. c # cs = u @ p @ v"
    proof cases
      case 1
      then obtain v where "c # cs = p @ v" using starts_with_iff by blast
      then have "c # cs = [] @ p @ v" by simp
      then show ?thesis by blast
    next
      case 2
      then obtain u v where "cs = u @ p @ v" using Cons.IH by blast
      then have "c # cs = (c # u) @ p @ v" by simp
      then show ?thesis by blast
    qed
  next
    assume "\<exists>u v. c # cs = u @ p @ v"
    then obtain u v where uv: "c # cs = u @ p @ v" by blast
    show "str_includes (c # cs) p"
    proof (cases u)
      case Nil
      with uv have "starts_with (c # cs) p" using starts_with_iff by fastforce
      then show ?thesis by simp
    next
      case (Cons a u')
      with uv have "cs = u' @ p @ v" by simp
      then have "str_includes cs p" using Cons.IH by blast
      then show ?thesis by simp
    qed
  qed
qed

lemma str_includes_longer: "str_includes s (q @ p) \<Longrightarrow> str_includes s p"
proof -
  assume "str_includes s (q @ p)"
  then obtain u v where "s = u @ (q @ p) @ v" using str_includes_iff by blast
  then have "s = (u @ q) @ p @ v" by simp
  then show ?thesis using str_includes_iff by blast
qed

lemma str_includes_inside: "str_includes b p \<Longrightarrow> str_includes (a @ b @ c) p"
proof -
  assume "str_includes b p"
  then obtain u v where "b = u @ p @ v" using str_includes_iff by blast
  then have "a @ b @ c = (a @ u) @ p @ (v @ c)" by simp
  then show ?thesis using str_includes_iff by blast
qed

lemma str_includes_shorter: "str_includes s (p @ q) \<Longrightarrow> str_includes s p"
proof -
  assume "str_includes s (p @ q)"
  then obtain u v where "s = u @ (p @ q) @ v" using str_includes_iff by blast
  then have "s = u @ p @ (q @ v)" by simp
  then show ?thesis using str_includes_iff by blast
qed

section \<open>Facts about the regular expressions\<close>

text \<open>A pattern of literal characters matches where the literal text starts.\<close>

lemma match_here_lit: "match_here (lit p) s \<noteq> None \<longleftrightarrow> starts_with s (js p)"
proof (induction p arbitrary: s)
  case Nil
  show ?case by (simp add: lit_def js_def)
next
  case (Cons a p)
  have step: "lit (a # p) = (Chr (of_char a), Once) # lit p" by (simp add: lit_def)
  have jstep: "js (a # p) = of_char a # js p" by (simp add: js_def)
  show ?case
  proof (cases s)
    case Nil
    then show ?thesis by (simp add: step jstep)
  next
    case (Cons c cs)
    with Cons.IH [of cs] show ?thesis by (auto simp: step jstep)
  qed
qed

lemma regex_test_lit: "regex_test (lit p) s \<longleftrightarrow> str_includes s (js p)"
proof (induction s)
  case Nil
  show ?case using match_here_lit [of p "[]"] by simp
next
  case (Cons c cs)
  show ?case using match_here_lit [of p "c # cs"] Cons.IH by simp
qed

lemma any_pattern_matchesI:
  "pattern \<in> set ps \<Longrightarrow> regex_test pattern s \<Longrightarrow> any_pattern_matches ps s"
  by (induction ps) auto

section \<open>Facts about the route\<close>

lemmas early_responses = no_code_response_def too_long_response_def malicious_response_def

lemmas late_responses = compile_failed_response_def timed_out_response_def success_response_def

lemmas pipeline_defs = post_compile_def try_block_def Let_def compileJava_def executeJava_def
  writeFileSync_def containsMaliciousCode_def dangerousPatterns_def lit_def
  sample_env_def completing_toolchain_def empty_state_def tempDir_def make_filename_def
  path_join_def number_toString_def existsSync_def unlinkSync_def cleanupFile_def dquote_def
  or_str_def elapsed_def

lemma try_block_response:
  assumes "try_block env s st = (Inr (Some r), st')"
  shows "(\<exists>e. r = compile_failed_response e (elapsed env)) \<or>
         r = timed_out_response (elapsed env) \<or>
         (\<exists>out. r = success_response out (elapsed env))"
  using assms unfolding try_block_def Let_def
  by (auto split: sum.splits prod.splits promise.splits compile_result.splits if_splits)

lemma post_compile_response:
  assumes "post_compile env code st = (Some r, st')"
  shows "r = no_code_response \<or> r = too_long_response \<or> r = malicious_response \<or>
         (\<exists>msg. r = server_error_response msg) \<or>
         (\<exists>e. r = compile_failed_response e (elapsed env)) \<or>
         r = timed_out_response (elapsed env) \<or>
         (\<exists>out. r = success_response out (elapsed env))"
proof (cases "\<exists>s. code = JString s \<and> s \<noteq> [] \<and> length s \<le> 10000 \<and> \<not> containsMaliciousCode s")
  case True
  then obtain s where s: "code = JString s" "s \<noteq> []" "length s \<le> 10000" "\<not> containsMaliciousCode s"
    by blast
  show ?thesis
  proof (cases "try_block env s st")
    case (Pair res st1)
    show ?thesis
    proof (cases res)
      case (Inl msg)
      with Pair s assms show ?thesis by (auto simp: post_compile_def)
    next
      case (Inr ro)
      with Pair s assms have "ro = Some r" "st1 = st'" by (simp_all add: post_compile_def)
      with Pair Inr have "try_block env s st = (Inr (Some r), st')" by simp
      from try_block_response [OF this] show ?thesis by blast
    qed
  qed
next
  case False
  with assms show ?thesis
    by (cases code) (auto simp: post_compile_def split: if_splits)
qed

lemma run_settle_callback:
  assumes "\<forall>d \<in> set evs. \<exists>name. d = Emit name \<and> name \<noteq> ''timeout''"
  shows "run_settle (evs @ Callback error stdout stderr # rest) =
         (Resolved \<lparr>output = or_str stdout stderr, timedOut = False\<rparr>, 0)"
  using assms by (induction evs) auto

lemma sample_not_malicious: "\<not> containsMaliciousCode (js ''int x = 1 / 0;'')"
  by (simp add: containsMaliciousCode_def dangerousPatterns_def lit_def js_def)

lemma sample_pattern: "lit ''ProcessBuilder'' \<in> set dangerousPatterns"
  by (simp add: dangerousPatterns_def)

lemma sample_match: "regex_test (lit ''ProcessBuilder'') (js ''new ProcessBuilder(cmd).start();'')"
  by (simp add: regex_test_lit) (simp add: js_def)

section \<open>Facts about the sweep\<close>





section \<open>The claims\<close>

text \<open>
  C1. Every file created for a request is deleted before the response is returned, on
  every exit path. The code does not do this on the path of an unexpected exception: the
  \<open>catch\<close> clause sends the 500 response and calls no cleanup. The input here declares
  a class \<open>Main\<close> that is not public, so it is written as it is and the compiler accepts
  it; then the second \<open>exec\<close> throws. The response is the internal-error payload and
  the source file of the request is still in the scratch directory afterwards.
\<close>

theorem C1_exception_path_keeps_source_file:
  "ensureMainClass plain_main_code = plain_main_code \<and>
   fst (post_compile spawn_fault_env (JString plain_main_code) empty_state) =
     Some (server_error_response (js ''spawn ENOMEM'')) \<and>
   status (server_error_response (js ''spawn ENOMEM'')) = 500 \<and>
   path_join (tempDir spawn_fault_env) (make_filename spawn_fault_env @ js ''.java'') =
     js ''/tmp/javalab-temp/Main_1700000000001_k3j9x2m1q.java'' \<and>
   existsSync (files (snd (post_compile spawn_fault_env (JString plain_main_code) empty_state)))
     (js ''/tmp/javalab-temp/Main_1700000000001_k3j9x2m1q.java'')"
  by (simp add: pipeline_defs spawn_fault_env_def failing_spawn_def server_error_response_def
      plain_main_code_def ensureMainClass_def js_def)

text \<open>The same run, read off the theorem: a response was sent and the file is there.\<close>

theorem C1_witness:
  "fst (post_compile spawn_fault_env (JString plain_main_code) empty_state) \<noteq> None \<and>
   files (snd (post_compile spawn_fault_env (JString plain_main_code) empty_state))
     (js ''/tmp/javalab-temp/Main_1700000000001_k3j9x2m1q.java'') \<noteq> None"
  using C1_exception_path_keeps_source_file by (simp add: existsSync_def)

text \<open>
  C2. A program that runs longer than the 5 second limit makes executeJava resolve to the
  timed-out outcome, and the response has \<open>success: false\<close> and the timeout message. The
  code does not do this: the runtime reports the overrun through the completion callback,
  which resolves the promise with \<open>timedOut: false\<close>; the listener of the event
  \<open>timeout\<close> never runs, so \<open>kill\<close> is never called by the program, and the response is
  a success with the output captured so far (here none).
\<close>

theorem C2_overrun_reported_as_success:
  "fst (executeJava overrun_env (make_filename overrun_env) (tempDir overrun_env) empty_state) =
     Resolved \<lparr>output = [], timedOut = False\<rparr> \<and>
   kill_calls (snd (executeJava overrun_env (make_filename overrun_env) (tempDir overrun_env)
     empty_state)) = 0 \<and>
   fst (post_compile overrun_env (JString loop_code) empty_state) =
     Some (success_response [] 5400) \<and>
   property (success_response [] 5400) ''success'' = Some (JBool True)"
  by (simp add: pipeline_defs overrun_env_def overrunning_run_def exec_timeout_deliveries_def
      loop_code_def success_response_def property_def js_def)

text \<open>The same run, read off the theorem: the response is not the timeout response.\<close>

theorem C2_witness:
  "fst (post_compile overrun_env (JString loop_code) empty_state) \<noteq>
     Some (timed_out_response 5400)"
  using C2_overrun_reported_as_success
  by (simp add: success_response_def timed_out_response_def)

text \<open>
  C3. For the input \<open>System.out.println("hi");\<close> the text is wrapped in the entry-point
  template, the file compiles under the name allocated for the request, and the response
  is a success with the output \<open>hi\<close>. The code wraps the text, but the template declares
  the public class \<open>Main\<close> while the file is named \<open>Main_<time>_<suffix>.java\<close> and the
  class given to the run step is \<open>Main_<time>_<suffix>\<close>; the compiler rejects a public
  class in a file of another name, and the response is the compile failure.
\<close>

theorem C3_class_name_differs_from_file_name:
  "ensureMainClass hi_code = wrapper_head @ hi_code @ wrapper_tail \<and>
   starts_with (ensureMainClass hi_code) (js ''public class Main {'') \<and>
   make_filename strict_env = js ''Main_1700000000001_k3j9x2m1q'' \<and>
   make_filename strict_env \<noteq> js ''Main'' \<and>
   spawned (snd (post_compile strict_env (JString hi_code) empty_state)) =
     [js ''javac -d /tmp/javalab-temp '' @ dquote @
      js ''/tmp/javalab-temp/Main_1700000000001_k3j9x2m1q.java'' @ dquote] \<and>
   fst (post_compile strict_env (JString hi_code) empty_state) =
     Some (compile_failed_response javac_name_error 950) \<and>
   property (compile_failed_response javac_name_error 950) ''success'' = Some (JBool False)"
  by (simp add: pipeline_defs strict_env_def rejecting_javac_def hi_code_def ensureMainClass_def
      wrapper_head_def compile_failed_response_def property_def javac_name_error_def js_def)

text \<open>The same run, read off the theorem: the response is not a success.\<close>

theorem C3_witness:
  "fst (post_compile strict_env (JString hi_code) empty_state) \<noteq>
     Some (success_response (js ''hi'') 950)"
  using C3_class_name_differs_from_file_name
  by (simp add: success_response_def compile_failed_response_def)

text \<open>
  C4. Every source text in which one of the denylisted patterns has a match is answered
  with status 400 and \<open>success: false\<close>, and the state after the request is the state
  before it: no file was written and no process was spawned. The scan is a function of
  the text alone.
\<close>

theorem C4_denylisted_rejected:
  assumes "pattern \<in> set dangerousPatterns" and "regex_test pattern s"
  shows "\<exists>r. post_compile env (JString s) st = (Some r, st) \<and> status r = 400 \<and>
             property r ''success'' = Some (JBool False)"
proof -
  have "containsMaliciousCode s"
    unfolding containsMaliciousCode_def using assms by (rule any_pattern_matchesI)
  then show ?thesis
    by (auto simp: post_compile_def property_def early_responses)
qed

theorem C4_witness:
  "\<exists>r. post_compile sample_env (JString (js ''new ProcessBuilder(cmd).start();'')) empty_state =
         (Some r, empty_state) \<and>
       status r = 400 \<and> property r ''success'' = Some (JBool False)"
  using C4_denylisted_rejected [OF sample_pattern sample_match] by simp

text \<open>
  C5. A request whose field \<open>code\<close> is missing, is not a string, is the empty string,
  or is longer than 10000 characters is answered with status 400 and \<open>success: false\<close>,
  and the state after the request is the state before it: no file was written and no
  process was spawned.
\<close>

theorem C5_invalid_code_rejected:
  assumes "(\<forall>s. code \<noteq> JString s) \<or> code = JString [] \<or>
           (\<exists>s. code = JString s \<and> length s > 10000)"
  shows "\<exists>r. post_compile env code st = (Some r, st) \<and> status r = 400 \<and>
             property r ''success'' = Some (JBool False)"
  using assms
  by (cases code) (auto simp: post_compile_def property_def early_responses)

theorem C5_witness:
  "(\<exists>r. post_compile sample_env JUndefined empty_state = (Some r, empty_state) \<and>
        status r = 400 \<and> property r ''success'' = Some (JBool False)) \<and>
   (\<exists>r. post_compile sample_env (JNumber 7) empty_state = (Some r, empty_state) \<and>
        status r = 400 \<and> property r ''success'' = Some (JBool False)) \<and>
   (\<exists>r. post_compile sample_env (JString []) empty_state = (Some r, empty_state) \<and>
        status r = 400 \<and> property r ''success'' = Some (JBool False)) \<and>
   (\<exists>r. post_compile sample_env (JString (replicate 10001 0x61)) empty_state =
          (Some r, empty_state) \<and>
        status r = 400 \<and> property r ''success'' = Some (JBool False))"
  using C5_invalid_code_rejected [of JUndefined sample_env empty_state]
    C5_invalid_code_rejected [of "JNumber 7" sample_env empty_state]
    C5_invalid_code_rejected [of "JString []" sample_env empty_state]
    C5_invalid_code_rejected [of "JString (replicate 10001 0x61)" sample_env empty_state]
  by simp

text \<open>
  C6. The formatted text of a compile failure holds no absolute path of the scratch
  directory. The code replaces only paths that start with \<open>/tmp/\<close>, while the scratch
  directory lies under the temporary directory of the operating system, whatever that is.
  On a host whose temporary directory is \<open>/var/scratch\<close> the path of the source file
  comes back in the output of the response.
\<close>

theorem C6_path_outside_tmp_disclosed:
  "fst (post_compile relocated_env (JString (js ''int x'')) empty_state) =
     Some (compile_failed_response javac_syntax_error 950) \<and>
   property (compile_failed_response javac_syntax_error 950) ''output'' =
     Some (JString (formatCompilationError javac_syntax_error)) \<and>
   path_join (tempDir relocated_env) (make_filename relocated_env @ js ''.java'') =
     js ''/var/scratch/javalab-temp/Main_1700000000001_k3j9x2m1q.java'' \<and>
   str_includes (formatCompilationError javac_syntax_error)
     (js ''/var/scratch/javalab-temp/Main_1700000000001_k3j9x2m1q.java'')"
proof -
  have ne: "javac_syntax_error \<noteq> []"
    by (simp add: javac_syntax_error_def js_def)
  have a: "fst (post_compile relocated_env (JString (js ''int x'')) empty_state) =
           Some (compile_failed_response javac_syntax_error 950)"
    using ne by (simp add: pipeline_defs relocated_env_def rejecting_javac_def js_def)
  have b: "property (compile_failed_response javac_syntax_error 950) ''output'' =
           Some (JString (formatCompilationError javac_syntax_error))"
    by (simp add: compile_failed_response_def property_def)
  have p: "path_join (tempDir relocated_env) (make_filename relocated_env @ js ''.java'') =
           js ''/var/scratch/javalab-temp/Main_1700000000001_k3j9x2m1q.java''"
    by (simp add: pipeline_defs relocated_env_def js_def)
  have c: "str_includes (formatCompilationError javac_syntax_error)
             (js ''/var/scratch/javalab-temp/Main_1700000000001_k3j9x2m1q.java'')"
    unfolding formatCompilationError_def Let_def
    by (rule str_includes_inside)
      (simp add: javac_syntax_error_def path_pattern_def lit_i_def lit_def
        is_space_def to_upper_ascii_def js_def)
  from a b p c show ?thesis by simp
qed

text \<open>The same run, read off the theorem: the output holds the scratch directory.\<close>

theorem C6_witness:
  "str_includes (formatCompilationError javac_syntax_error) (js ''/var/scratch/javalab-temp'')"
proof -
  have split: "js ''/var/scratch/javalab-temp/Main_1700000000001_k3j9x2m1q.java'' =
        js ''/var/scratch/javalab-temp'' @ js ''/Main_1700000000001_k3j9x2m1q.java''"
    by (simp add: js_def)
  have "str_includes (formatCompilationError javac_syntax_error)
          (js ''/var/scratch/javalab-temp/Main_1700000000001_k3j9x2m1q.java'')"
    using C6_path_outside_tmp_disclosed by (rule conjunct2 [THEN conjunct2, THEN conjunct2])
  then show ?thesis
    unfolding split by (rule str_includes_shorter)
qed

text \<open>
  C7, as amended. Every response has \<open>success\<close> (a boolean) and \<open>output\<close> (a string).
  A response with status 200 has, besides these, \<open>executionTime\<close>, the number of
  milliseconds between the two clock readings of the request, and no \<open>error\<close>; a
  response with status 400 or 500 has \<open>error\<close> (a string) and no \<open>executionTime\<close>.
\<close>

theorem C7_response_shape:
  assumes "post_compile env code st = (Some r, st')"
  shows "(status r = 200 \<and> shape r = ok_shape \<and>
          property r ''executionTime'' = Some (JNumber (clock_end env - clock_start env)) \<and>
          property r ''error'' = None) \<or>
         ((status r = 400 \<or> status r = 500) \<and> shape r = error_shape \<and>
          property r ''executionTime'' = None)"
  using post_compile_response [OF assms]
  by (auto simp: early_responses late_responses server_error_response_def shape_def property_def
      ok_shape_def error_shape_def elapsed_def)

theorem C7_witness:
  "status no_code_response = 400 \<and> shape no_code_response = error_shape \<and>
   status (success_response (js ''42\<newline>'') 950) = 200 \<and>
   shape (success_response (js ''42\<newline>'') 950) = ok_shape"
proof -
  let ?c = "JString (js ''int x = 1;'')"
  have "post_compile sample_env JUndefined empty_state = (Some no_code_response, empty_state)"
    by (simp add: post_compile_def)
  from C7_response_shape [OF this]
  have 1: "status no_code_response = 400 \<and> shape no_code_response = error_shape"
    by (auto simp: no_code_response_def)
  have "fst (post_compile sample_env ?c empty_state) = Some (success_response (js ''42\<newline>'') 950)"
    by (simp add: pipeline_defs js_def)
  then have "post_compile sample_env ?c empty_state =
             (Some (success_response (js ''42\<newline>'') 950), snd (post_compile sample_env ?c empty_state))"
    by (simp add: prod_eq_iff)
  from C7_response_shape [OF this]
  have 2: "status (success_response (js ''42\<newline>'') 950) = 200 \<and>
           shape (success_response (js ''42\<newline>'') 950) = ok_shape"
    by (auto simp: success_response_def)
  from 1 2 show ?thesis by simp
qed

text \<open>
  The claim as it stands asks for \<open>executionTime\<close> in every response. The response to a
  request without code has status 400 and no such property.
\<close>

theorem C7_counterexample:
  "fst (post_compile sample_env JUndefined empty_state) = Some no_code_response \<and>
   status no_code_response = 400 \<and>
   property no_code_response ''executionTime'' = None"
  by (simp add: post_compile_def no_code_response_def property_def)

text \<open>
  C8. ensureMainClass returns its argument unchanged on every source text in which the
  canonical class name occurs (\<open>class Main\<close> is a substring; the source's other test,
  \<open>public class Main\<close>, is a special case of it), and on every other source text it
  returns the wrapper template with the original text, verbatim, between the head and the
  tail of the template.
\<close>

theorem C8_ensureMainClass_identity_or_wrap:
  "((\<exists>u v. code = u @ js ''class Main'' @ v) \<longrightarrow> ensureMainClass code = code) \<and>
   ((\<exists>u v. code = u @ js ''public class Main'' @ v) \<longrightarrow> ensureMainClass code = code) \<and>
   (\<not> (\<exists>u v. code = u @ js ''class Main'' @ v) \<longrightarrow>
      ensureMainClass code = wrapper_head @ code @ wrapper_tail)"
proof -
  have pub: "js ''public class Main'' = js ''public '' @ js ''class Main''"
    by (simp add: js_def)
  have imp: "str_includes code (js ''public class Main'') \<Longrightarrow> str_includes code (js ''class Main'')"
    unfolding pub by (rule str_includes_longer)
  show ?thesis
    unfolding ensureMainClass_def str_includes_iff [symmetric]
    using imp by auto
qed

theorem C8_witness:
  "ensureMainClass (js ''class Main {}'') = js ''class Main {}'' \<and>
   ensureMainClass (js ''int x = 1;'') = wrapper_head @ js ''int x = 1;'' @ wrapper_tail"
proof -
  have a: "\<exists>u v. js ''class Main {}'' = u @ js ''class Main'' @ v"
  proof -
    have "js ''class Main {}'' = [] @ js ''class Main'' @ js '' {}''" by (simp add: js_def)
    then show ?thesis by blast
  qed
  have b: "\<not> (\<exists>u v. js ''int x = 1;'' = u @ js ''class Main'' @ v)"
    unfolding str_includes_iff [symmetric] by (simp add: js_def)
  from C8_ensureMainClass_identity_or_wrap [of "js ''class Main {}''"] a
  have 1: "ensureMainClass (js ''class Main {}'') = js ''class Main {}''" by blast
  from C8_ensureMainClass_identity_or_wrap [of "js ''int x = 1;''"] b
  have 2: "ensureMainClass (js ''int x = 1;'') = wrapper_head @ js ''int x = 1;'' @ wrapper_tail"
    by blast
  from 1 2 show ?thesis by simp
qed




text \<open>
  C10. When the input is accepted, the source file is written, the compiler succeeds, and
  the run ends with the completion callback (with any error value, so with any exit
  status) before an event \<open>timeout\<close>, the response has status 200, \<open>success: true\<close>,
  and as output the stdout of the process if that is not empty, and its stderr otherwise.
\<close>

theorem C10_completed_run_is_success:
  assumes "s \<noteq> []" and "length s \<le> 10000" and "\<not> containsMaliciousCode s"
    and "writeFileSync env (files st) (path_join (tempDir env) (make_filename env @ js ''.java''))
           (ensureMainClass s) = Inr fs1"
    and "compileJava env (path_join (tempDir env) (make_filename env @ js ''.java'')) (tempDir env)
           (st\<lparr>files := fs1\<rparr>) = (Resolved (CompileOk out1), st2)"
    and "java env (js ''cd '' @ dquote @ tempDir env @ dquote @ js '' && java '' @ make_filename env)
           (files st2) = Inr (fs3, evs @ Callback error stdout stderr # rest)"
    and "\<forall>d \<in> set evs. \<exists>name. d = Emit name \<and> name \<noteq> ''timeout''"
  shows "\<exists>r. fst (post_compile env (JString s) st) = Some r \<and> status r = 200 \<and>
             property r ''success'' = Some (JBool True) \<and>
             property r ''output'' = Some (JString (if stdout \<noteq> [] then stdout else stderr))"
proof -
  have run: "fst (executeJava env (make_filename env) (tempDir env) st2) =
             Resolved \<lparr>output = or_str stdout stderr, timedOut = False\<rparr>"
    using assms(6) run_settle_callback [OF assms(7)] by (simp add: executeJava_def)
  obtain p st3 where ex: "executeJava env (make_filename env) (tempDir env) st2 = (p, st3)"
    by (cases "executeJava env (make_filename env) (tempDir env) st2")
  with run have p: "p = Resolved \<lparr>output = or_str stdout stderr, timedOut = False\<rparr>" by simp
  have "fst (try_block env s st) =
        Inr (Some (success_response (or_str stdout stderr) (elapsed env)))"
    using assms(4,5) ex p by (simp add: try_block_def Let_def)
  then have "fst (post_compile env (JString s) st) =
        Some (success_response (or_str stdout stderr) (elapsed env))"
    using assms(1-3) by (cases "try_block env s st") (simp add: post_compile_def)
  then show ?thesis
    by (simp add: success_response_def property_def or_str_def)
qed

theorem C10_witness:
  "\<exists>r. fst (post_compile crash_env (JString (js ''int x = 1 / 0;'')) empty_state) = Some r \<and>
       status r = 200 \<and> property r ''success'' = Some (JBool True) \<and>
       property r ''output'' =
         Some (JString (js ''Exception in thread main java.lang.ArithmeticException: / by zero''))"
proof -
  let ?s = "js ''int x = 1 / 0;''"
  let ?p = "path_join (tempDir crash_env) (make_filename crash_env @ js ''.java'')"
  let ?fs1 = "(files empty_state)(?p \<mapsto>
     \<lparr>kind = RegularFile, mtimeMs = clock_name crash_env, content = ensureMainClass ?s\<rparr>)"
  let ?cmd = "js ''javac -d '' @ tempDir crash_env @ js '' '' @ dquote @ ?p @ dquote"
  let ?st2 = "empty_state\<lparr>files := ?fs1, spawned := [?cmd]\<rparr>"
  let ?run = "js ''cd '' @ dquote @ tempDir crash_env @ dquote @ js '' && java '' @
              make_filename crash_env"
  have 1: "?s \<noteq> []" by (simp add: js_def)
  have 2: "length ?s \<le> 10000" by (simp add: js_def)
  have 4: "writeFileSync crash_env (files empty_state) ?p (ensureMainClass ?s) = Inr ?fs1"
    by (simp add: writeFileSync_def crash_env_def sample_env_def empty_state_def)
  have 5: "compileJava crash_env ?p (tempDir crash_env) (empty_state\<lparr>files := ?fs1\<rparr>) =
           (Resolved (CompileOk []), ?st2)"
    by (simp add: compileJava_def crash_env_def sample_env_def completing_toolchain_def
        empty_state_def Let_def)
  have 6: "java crash_env ?run (files ?st2) =
           Inr (files ?st2, [Emit ''spawn'', Emit ''exit'', Emit ''close''] @
             Callback (Some \<lparr>message = js ''Command failed: '' @ ?run, killed = False,
                 exit_code = Some 1\<rparr>)
               [] (js ''Exception in thread main java.lang.ArithmeticException: / by zero'') # [])"
    by (simp add: crash_env_def sample_env_def crashing_run_def)
  have 7: "\<forall>d \<in> set [Emit ''spawn'', Emit ''exit'', Emit ''close''].
             \<exists>name. d = Emit name \<and> name \<noteq> ''timeout''"
    by simp
  from C10_completed_run_is_success [OF 1 2 sample_not_malicious 4 5 6 7]
  show ?thesis by (simp add: js_def)
qed

end
